theory Spec2Isabelle
  imports Main "HOL-Library.Word"
begin

section \<open>Data model\<close>

text \<open>
  The three modules \<^verbatim>\<open>User/user.ts\<close>, \<^verbatim>\<open>Stuff/stuff.ts\<close> and \<^verbatim>\<open>Slot/slot.ts\<close> each
  declare a record class, a payload class and one module-level \<^verbatim>\<open>StableBTreeMap\<close> keyed
  by strings. A \<^verbatim>\<open>nat64\<close> is an unsigned 64-bit integer. The \<^verbatim>\<open>Date\<close> of a user is
  represented by its time value (an integer number of milliseconds).
\<close>

type_synonym nat64 = "64 word"

type_synonym Date = int

record User =
  id :: string
  pseudo :: string
  name :: string
  createdAt :: Date
  updatedAt :: Date

record UserPayload =
  pseudo :: string
  name :: string

record Stuff =
  id :: string
  description :: string
  image_url :: string
  ownerId :: string
  createdAt :: nat64
  updatedAt :: nat64

record StuffPayload =
  description :: string
  image_url :: string
  ownerId :: string

record Slot =
  id :: string
  description :: string
  stuffId :: string
  ownerId :: string
  beginAt :: nat64
  endAt :: nat64
  available :: bool
  createdAt :: nat64
  updatedAt :: nat64

record SlotPayload =
  description :: string
  stuffId :: string
  ownerId :: string
  beginAt :: nat64
  endAt :: nat64
  available :: bool

subsection \<open>Objects at run time\<close>

text \<open>
  The classes are types of the compiler only. What a store holds and returns is an
  object, and the update functions build their result by spreading whatever object the
  store returned (\<^verbatim>\<open>{...stored, ...payload, updatedAt: ...}\<close>), so an object may carry
  the properties of more than one class. An object is the record of every property the
  modules write. Every object the modules build has a string \<^verbatim>\<open>id\<close> (a fresh
  \<^verbatim>\<open>uuidv4()\<close>, the id of the spread stored object, or the string argument \<^verbatim>\<open>id\<close>) and
  no payload class has an \<^verbatim>\<open>id\<close>; each other property is present or absent. The
  property \<^verbatim>\<open>createdAt\<close> or \<^verbatim>\<open>updatedAt\<close> holds a \<^verbatim>\<open>Date\<close> when \<^verbatim>\<open>user.ts\<close> wrote it
  and a \<^verbatim>\<open>nat64\<close> when \<^verbatim>\<open>stuff.ts\<close> or \<^verbatim>\<open>slot.ts\<close> wrote it.
\<close>

datatype timestamp = AsDate Date | AsNat64 nat64

record obj =
  id :: string
  pseudo :: "string option"
  name :: "string option"
  description :: "string option"
  image_url :: "string option"
  stuffId :: "string option"
  ownerId :: "string option"
  beginAt :: "nat64 option"
  endAt :: "nat64 option"
  available :: "bool option"
  createdAt :: "timestamp option"
  updatedAt :: "timestamp option"

text \<open>The object that an object literal of each class denotes.\<close>

definition User_obj :: "User \<Rightarrow> obj" where
  "User_obj u =
     \<lparr>obj.id = User.id u,
      pseudo = Some (User.pseudo u),
      name = Some (User.name u),
      description = None,
      image_url = None,
      stuffId = None,
      ownerId = None,
      beginAt = None,
      endAt = None,
      available = None,
      createdAt = Some (AsDate (User.createdAt u)),
      updatedAt = Some (AsDate (User.updatedAt u))\<rparr>"

definition Stuff_obj :: "Stuff \<Rightarrow> obj" where
  "Stuff_obj s =
     \<lparr>obj.id = Stuff.id s,
      pseudo = None,
      name = None,
      description = Some (Stuff.description s),
      image_url = Some (Stuff.image_url s),
      stuffId = None,
      ownerId = Some (Stuff.ownerId s),
      beginAt = None,
      endAt = None,
      available = None,
      createdAt = Some (AsNat64 (Stuff.createdAt s)),
      updatedAt = Some (AsNat64 (Stuff.updatedAt s))\<rparr>"

definition Slot_obj :: "Slot \<Rightarrow> obj" where
  "Slot_obj s =
     \<lparr>obj.id = Slot.id s,
      pseudo = None,
      name = None,
      description = Some (Slot.description s),
      image_url = None,
      stuffId = Some (Slot.stuffId s),
      ownerId = Some (Slot.ownerId s),
      beginAt = Some (Slot.beginAt s),
      endAt = Some (Slot.endAt s),
      available = Some (Slot.available s),
      createdAt = Some (AsNat64 (Slot.createdAt s)),
      updatedAt = Some (AsNat64 (Slot.updatedAt s))\<rparr>"

subsection \<open>Stable memory and the key-value stores\<close>

text \<open>
  \<^verbatim>\<open>StableBTreeMap<string, V>(memoryId)\<close> comes from the azle library: it is a handle on
  the map kept in the stable memory with that id. The three modules open their stores
  with the same id: \<^verbatim>\<open>StableBTreeMap<string, User>(0)\<close>,
  \<^verbatim>\<open>StableBTreeMap<string, Stuff>(0)\<close> and \<^verbatim>\<open>StableBTreeMap<string, Slot>(0)\<close>, and
  \<^verbatim>\<open>slot.ts\<close> imports the other two, so the three handles live in one canister and
  read and write one and the same map. The state is the stable memory: a map of
  objects for each memory id. A handle is its memory id.

  A store is used through four methods only: \<^verbatim>\<open>get\<close> (an \<^verbatim>\<open>Opt\<close>: \<^verbatim>\<open>{Some: v}\<close> or
  \<^verbatim>\<open>{None: null}\<close>), \<^verbatim>\<open>containsKey\<close>, \<^verbatim>\<open>insert\<close> (whose returned previous value the
  modules never read) and \<^verbatim>\<open>remove\<close> (which returns the removed value as an \<^verbatim>\<open>Opt\<close>).
\<close>

type_synonym memory_id = nat

type_synonym state = "memory_id \<Rightarrow> (string \<rightharpoonup> obj)"

definition init :: state where
  "init = (\<lambda>h. Map.empty)"

definition get_btree :: "state \<Rightarrow> memory_id \<Rightarrow> string \<Rightarrow> obj option" where
  "get_btree st h k = st h k"

definition containsKey :: "state \<Rightarrow> memory_id \<Rightarrow> string \<Rightarrow> bool" where
  "containsKey st h k = (st h k \<noteq> None)"

definition insert_btree :: "state \<Rightarrow> memory_id \<Rightarrow> string \<Rightarrow> obj \<Rightarrow> state" where
  "insert_btree st h k v = st(h := (st h)(k \<mapsto> v))"

definition remove_btree :: "state \<Rightarrow> memory_id \<Rightarrow> string \<Rightarrow> obj option \<times> state" where
  "remove_btree st h k = (st h k, st(h := (st h)(k := None)))"

definition usersStorage :: memory_id where
  "usersStorage = 0"

definition stuffsStorage :: memory_id where
  "stuffsStorage = 0"

definition slotsStorage :: memory_id where
  "slotsStorage = 0"

subsection \<open>The collaborators of one call\<close>

text \<open>
  One call reads three things from outside the repository: \<^verbatim>\<open>uuidv4()\<close> (called at most
  once per call), \<^verbatim>\<open>ic.time()\<close> (the time of the message being executed, the same at
  every read within one call), and the JavaScript conversion
  \<^verbatim>\<open>new Date(Number(t) / 100_000)\<close> that \<^verbatim>\<open>getCurrentDate\<close> applies to that time. The
  conversion is floating-point arithmetic of the host language; it is kept as the
  function \<open>toDate\<close> and never unfolded.
\<close>

record ic =
  uuidv4 :: string
  time :: nat64
  toDate :: "nat64 \<Rightarrow> Date"

section \<open>User/user.ts\<close>

definition getCurrentDate :: "ic \<Rightarrow> Date" where
  "getCurrentDate e = toDate e (time e)"

definition getUser :: "string \<Rightarrow> state \<Rightarrow> obj option" where
  "getUser i st = get_btree st usersStorage i"

definition checkUser :: "string \<Rightarrow> state \<Rightarrow> bool" where
  "checkUser i st = containsKey st usersStorage i"

definition addUser :: "ic \<Rightarrow> UserPayload \<Rightarrow> state \<Rightarrow> obj \<times> state" where
  "addUser e user st =
     (let newUser = User_obj \<lparr>User.id = uuidv4 e,
                               pseudo = UserPayload.pseudo user,
                               name = UserPayload.name user,
                               createdAt = getCurrentDate e,
                               updatedAt = getCurrentDate e\<rparr>
      in (newUser, insert_btree st usersStorage (obj.id newUser) newUser))"

text \<open>
  \<^verbatim>\<open>updateUser\<close> writes the merged object under the key \<^verbatim>\<open>updatedUser.id\<close> (the id of the
  stored object) and returns a fresh \<^verbatim>\<open>usersStorage.get(id)\<close>.
\<close>

definition updateUser :: "ic \<Rightarrow> string \<Rightarrow> UserPayload \<Rightarrow> state \<Rightarrow> obj option \<times> state" where
  "updateUser e i user st =
     (case get_btree st usersStorage i of
        Some storedUser \<Rightarrow>
          (let updatedUser = storedUser\<lparr>obj.pseudo := Some (UserPayload.pseudo user),
                                         obj.name := Some (UserPayload.name user),
                                         obj.updatedAt := Some (AsDate (getCurrentDate e))\<rparr>;
               st' = insert_btree st usersStorage (obj.id updatedUser) updatedUser
           in (get_btree st' usersStorage i, st'))
      | None \<Rightarrow> (get_btree st usersStorage i, st))"

definition removeUser :: "string \<Rightarrow> state \<Rightarrow> obj option \<times> state" where
  "removeUser i st = remove_btree st usersStorage i"

section \<open>Stuff/stuff.ts\<close>

definition getStuff :: "string \<Rightarrow> state \<Rightarrow> obj option" where
  "getStuff i st = get_btree st stuffsStorage i"

definition checkStuffId :: "string \<Rightarrow> state \<Rightarrow> bool" where
  "checkStuffId i st = containsKey st stuffsStorage i"

definition createStuff :: "ic \<Rightarrow> StuffPayload \<Rightarrow> state \<Rightarrow> obj \<times> state" where
  "createStuff e stuff st =
     (let newStuff = Stuff_obj \<lparr>Stuff.id = uuidv4 e,
                                 description = StuffPayload.description stuff,
                                 image_url = StuffPayload.image_url stuff,
                                 ownerId = StuffPayload.ownerId stuff,
                                 createdAt = time e,
                                 updatedAt = time e\<rparr>
      in (newStuff, insert_btree st stuffsStorage (obj.id newStuff) newStuff))"

text \<open>
  The functions typed \<^verbatim>\<open>Stuff | string\<close> return either the object (\<open>Inr\<close>) or a
  message (\<open>Inl\<close>).
\<close>

definition updateStuff ::
  "ic \<Rightarrow> string \<Rightarrow> StuffPayload \<Rightarrow> state \<Rightarrow> (string + obj) \<times> state" where
  "updateStuff e i payload st =
     (case get_btree st stuffsStorage i of
        Some stuff \<Rightarrow>
          (let updatedStuff =
                 stuff\<lparr>obj.description := Some (StuffPayload.description payload),
                       obj.image_url := Some (StuffPayload.image_url payload),
                       obj.ownerId := Some (StuffPayload.ownerId payload),
                       obj.updatedAt := Some (AsNat64 (time e))\<rparr>
           in (Inr updatedStuff, insert_btree st stuffsStorage (obj.id stuff) updatedStuff))
      | None \<Rightarrow> (Inl (''Stuff with id='' @ i @ '' not found''), st))"

definition transferStuffOwnability ::
  "ic \<Rightarrow> string \<Rightarrow> string \<Rightarrow> state \<Rightarrow> (string + obj) \<times> state" where
  "transferStuffOwnability e i toOwnerId st =
     (case get_btree st stuffsStorage i of
        Some stuff \<Rightarrow>
          if checkUser toOwnerId st then
            (let updatedStuff = stuff\<lparr>obj.ownerId := Some toOwnerId,
                                       obj.updatedAt := Some (AsNat64 (time e))\<rparr>
             in (Inr updatedStuff,
                 insert_btree st stuffsStorage (obj.id stuff) updatedStuff))
          else (Inl (''Stuff with id='' @ i @ '' not found''), st)
      | None \<Rightarrow> (Inl (''Stuff with id='' @ i @ '' not found''), st))"

definition deleteStuff :: "string \<Rightarrow> state \<Rightarrow> obj option \<times> state" where
  "deleteStuff i st = remove_btree st stuffsStorage i"

section \<open>Slot/slot.ts\<close>

definition getSlot :: "string \<Rightarrow> state \<Rightarrow> obj option" where
  "getSlot i st = get_btree st slotsStorage i"

definition checkSlotId :: "string \<Rightarrow> state \<Rightarrow> bool" where
  "checkSlotId i st = containsKey st slotsStorage i"

text \<open>
  \<^verbatim>\<open>addSlot\<close> tests \<^verbatim>\<open>!checkUser(payload.ownerId)\<close> first and then
  \<^verbatim>\<open>checkStuffId(payload.stuffId)\<close>, the latter without a negation.
\<close>

definition addSlot :: "ic \<Rightarrow> SlotPayload \<Rightarrow> state \<Rightarrow> (string + obj) \<times> state" where
  "addSlot e payload st =
     (if \<not> checkUser (SlotPayload.ownerId payload) st then
        (Inl (''Can't create slot: no user found matching id='' @ SlotPayload.ownerId payload),
         st)
      else if checkStuffId (SlotPayload.stuffId payload) st then
        (Inl (''Can't create slot: no stuff matching id='' @ SlotPayload.stuffId payload), st)
      else
        (let slot = Slot_obj \<lparr>Slot.id = uuidv4 e,
                               description = SlotPayload.description payload,
                               stuffId = SlotPayload.stuffId payload,
                               ownerId = SlotPayload.ownerId payload,
                               beginAt = SlotPayload.beginAt payload,
                               endAt = SlotPayload.endAt payload,
                               available = SlotPayload.available payload,
                               createdAt = time e,
                               updatedAt = time e\<rparr>
         in (Inr slot, insert_btree st slotsStorage (obj.id slot) slot)))"

definition updateSlot ::
  "ic \<Rightarrow> string \<Rightarrow> SlotPayload \<Rightarrow> state \<Rightarrow> (string + obj) \<times> state" where
  "updateSlot e i payload st =
     (case get_btree st slotsStorage i of
        Some slot \<Rightarrow>
          if \<not> checkUser (SlotPayload.ownerId payload) st then
            (Inl (''can't update slot: no user matching id='' @ SlotPayload.ownerId payload),
             st)
          else if \<not> checkStuffId (SlotPayload.stuffId payload) st then
            (Inl (''can't update slot: no stuff matching id='' @ SlotPayload.stuffId payload),
             st)
          else
            (let updatedSlot =
                   slot\<lparr>obj.description := Some (SlotPayload.description payload),
                        obj.stuffId := Some (SlotPayload.stuffId payload),
                        obj.ownerId := Some (SlotPayload.ownerId payload),
                        obj.beginAt := Some (SlotPayload.beginAt payload),
                        obj.endAt := Some (SlotPayload.endAt payload),
                        obj.available := Some (SlotPayload.available payload),
                        obj.updatedAt := Some (AsNat64 (time e))\<rparr>
             in (Inr updatedSlot, insert_btree st slotsStorage i updatedSlot))
      | None \<Rightarrow> (Inl (''can't update slot: no slot matching id='' @ i), st))"

definition removeSlot :: "string \<Rightarrow> state \<Rightarrow> obj option \<times> state" where
  "removeSlot i st = remove_btree st slotsStorage i"

section \<open>The second revision of User/user.ts\<close>

text \<open>
  The file holds a second revision of the module, which opens \<^verbatim>\<open>usersStorage\<close> on the
  memory id 0 as well. Its \<^verbatim>\<open>updateUser\<close> reads \<^verbatim>\<open>usersStorage.get(id).Some\<close>
  (\<^verbatim>\<open>undefined\<close> when the key is absent), builds \<^verbatim>\<open>Result.Err(...)\<close> as an expression
  statement that is not returned when \<^verbatim>\<open>checkUser(id)\<close> is false, and goes on to build
  \<^verbatim>\<open>{id: id, ...storedUser, ...user, updatedAt: getCurrentDate()}\<close>, to insert it under
  \<^verbatim>\<open>id\<close> and to return \<^verbatim>\<open>Result.Ok(updatedUser)\<close>. Spreading \<^verbatim>\<open>undefined\<close> adds no
  property, so the object built for an absent key has no \<^verbatim>\<open>createdAt\<close>; the spread of
  a stored object overrides \<^verbatim>\<open>id: id\<close> with the stored id.
\<close>

definition updateUser_rev2 ::
  "ic \<Rightarrow> string \<Rightarrow> UserPayload \<Rightarrow> state \<Rightarrow> (string + obj) \<times> state" where
  "updateUser_rev2 e i user st =
     (let storedUser = get_btree st usersStorage i;
          updatedUser =
            (case storedUser of
               None \<Rightarrow> \<lparr>obj.id = i,
                         pseudo = Some (UserPayload.pseudo user),
                         name = Some (UserPayload.name user),
                         description = None,
                         image_url = None,
                         stuffId = None,
                         ownerId = None,
                         beginAt = None,
                         endAt = None,
                         available = None,
                         createdAt = None,
                         updatedAt = Some (AsDate (getCurrentDate e))\<rparr>
             | Some s \<Rightarrow> s\<lparr>obj.pseudo := Some (UserPayload.pseudo user),
                           obj.name := Some (UserPayload.name user),
                           obj.updatedAt := Some (AsDate (getCurrentDate e))\<rparr>)
      in (Inr updatedUser, insert_btree st usersStorage i updatedUser))"

section \<open>Store invariants\<close>

text \<open>
  Every insertion of a new object uses the object's own id as the key. \<open>keyed\<close> says
  that each stored object sits under its id; \<open>stamped_upto\<close> says that no stored
  \<^verbatim>\<open>updatedAt\<close> lies after the time of the call described by \<open>e\<close>.
\<close>

definition keyed :: "state \<Rightarrow> bool" where
  "keyed st \<longleftrightarrow> (\<forall>h k x. st h k = Some x \<longrightarrow> obj.id x = k)"

fun not_after :: "ic \<Rightarrow> timestamp \<Rightarrow> bool" where
  "not_after e (AsDate d) = (d \<le> getCurrentDate e)"
| "not_after e (AsNat64 t) = (t \<le> time e)"

definition stamped_upto :: "ic \<Rightarrow> state \<Rightarrow> bool" where
  "stamped_upto e st \<longleftrightarrow>
     (\<forall>h k x s. st h k = Some x \<and> obj.updatedAt x = Some s \<longrightarrow> not_after e s)"

text \<open>
  A later call: the clock has not gone back, and the date conversion is the same
  monotone function.
\<close>

definition later :: "ic \<Rightarrow> ic \<Rightarrow> bool" where
  "later e e' \<longleftrightarrow> time e \<le> time e' \<and> toDate e' = toDate e \<and> mono (toDate e)"

subsection \<open>Histories of calls\<close>

text \<open>
  The exported functions that write to a store, as the calls of a history. \<open>exec\<close>
  keeps the state a call leaves behind, \<open>run\<close> executes a history in order and
  returns the collaborators of its last call with the final state, and \<open>ordered\<close> says
  that the clock never goes back along the history.
\<close>

datatype call =
    AddUser UserPayload
  | UpdateUser string UserPayload
  | RemoveUser string
  | CreateStuff StuffPayload
  | UpdateStuff string StuffPayload
  | TransferStuffOwnability string string
  | DeleteStuff string
  | AddSlot SlotPayload
  | UpdateSlot string SlotPayload
  | RemoveSlot string

fun exec :: "ic \<Rightarrow> call \<Rightarrow> state \<Rightarrow> state" where
  "exec e (AddUser p) st = snd (addUser e p st)"
| "exec e (UpdateUser i p) st = snd (updateUser e i p st)"
| "exec e (RemoveUser i) st = snd (removeUser i st)"
| "exec e (CreateStuff p) st = snd (createStuff e p st)"
| "exec e (UpdateStuff i p) st = snd (updateStuff e i p st)"
| "exec e (TransferStuffOwnability i k) st = snd (transferStuffOwnability e i k st)"
| "exec e (DeleteStuff i) st = snd (deleteStuff i st)"
| "exec e (AddSlot p) st = snd (addSlot e p st)"
| "exec e (UpdateSlot i p) st = snd (updateSlot e i p st)"
| "exec e (RemoveSlot i) st = snd (removeSlot i st)"

fun run :: "ic \<Rightarrow> (ic \<times> call) list \<Rightarrow> state \<Rightarrow> ic \<times> state" where
  "run e0 [] st = (e0, st)"
| "run e0 ((e, c) # cs) st = run e cs (exec e c st)"

fun ordered :: "ic \<Rightarrow> (ic \<times> call) list \<Rightarrow> bool" where
  "ordered e0 [] = True"
| "ordered e0 ((e, c) # cs) = (later e0 e \<and> ordered e cs)"

section \<open>A sample history\<close>

text \<open>
  Sample data for the closed instances below. The states are produced by the
  functions themselves, starting from the empty memory: the user \<open>U1\<close> is added, then
  the slot \<open>S1\<close> that names the stuff \<open>I1\<close> (not stored at that moment), then the stuff
  \<open>I1\<close> itself, then the user \<open>U2\<close>. \<open>ms\<close> is a sample date conversion.
\<close>

abbreviation ms :: "nat64 \<Rightarrow> Date" where
  "ms \<equiv> (\<lambda>t. uint t div 100000)"

abbreviation at :: "string \<Rightarrow> nat64 \<Rightarrow> ic" where
  "at k t \<equiv> \<lparr>uuidv4 = k, time = t, toDate = ms\<rparr>"

abbreviation ann :: UserPayload where
  "ann \<equiv> \<lparr>UserPayload.pseudo = ''ann'', name = ''Ann''\<rparr>"



abbreviation bike :: StuffPayload where
  "bike \<equiv> \<lparr>StuffPayload.description = ''bike'', image_url = ''bike.png'', ownerId = ''U1''\<rparr>"


abbreviation rent :: SlotPayload where
  "rent \<equiv> \<lparr>SlotPayload.description = ''rent'', stuffId = ''I1'', ownerId = ''U1'',
            beginAt = 100, endAt = 200, available = True\<rparr>"


text \<open>The objects that the sample history stores.\<close>

abbreviation U1 :: obj where
  "U1 \<equiv> User_obj \<lparr>User.id = ''U1'', pseudo = ''ann'', name = ''Ann'', createdAt = 10,
                   updatedAt = 10\<rparr>"


abbreviation S1 :: obj where
  "S1 \<equiv> Slot_obj \<lparr>Slot.id = ''S1'', description = ''rent'', stuffId = ''I1'',
                   ownerId = ''U1'', beginAt = 100, endAt = 200, available = True,
                   createdAt = 2000000, updatedAt = 2000000\<rparr>"

abbreviation I1 :: obj where
  "I1 \<equiv> Stuff_obj \<lparr>Stuff.id = ''I1'', description = ''bike'', image_url = ''bike.png'',
                    ownerId = ''U1'', createdAt = 3000000, updatedAt = 3000000\<rparr>"

definition with_user :: state where
  "with_user = snd (addUser (at ''U1'' 1000000) ann init)"

definition with_slot :: state where
  "with_slot = snd (addSlot (at ''S1'' 2000000) rent with_user)"

definition with_stuff :: state where
  "with_stuff = snd (createStuff (at ''I1'' 3000000) bike with_slot)"


section \<open>Basic facts\<close>

lemmas btree_defs = get_btree_def containsKey_def insert_btree_def remove_btree_def
  usersStorage_def stuffsStorage_def slotsStorage_def

lemmas obj_defs = User_obj_def Stuff_obj_def Slot_obj_def

lemma with_user_eval: "with_user = (\<lambda>h. Map.empty)(0 := [''U1'' \<mapsto> U1])"
  by (simp add: with_user_def addUser_def getCurrentDate_def btree_defs init_def Let_def
      User_obj_def)

lemma with_slot_eval: "with_slot = (\<lambda>h. Map.empty)(0 := [''U1'' \<mapsto> U1, ''S1'' \<mapsto> S1])"
  by (simp add: with_slot_def with_user_eval addSlot_def checkUser_def checkStuffId_def
      btree_defs Let_def Slot_obj_def)

lemma with_stuff_eval:
  "with_stuff = (\<lambda>h. Map.empty)(0 := [''U1'' \<mapsto> U1, ''S1'' \<mapsto> S1, ''I1'' \<mapsto> I1])"
  by (simp add: with_stuff_def with_slot_eval createStuff_def btree_defs Let_def Stuff_obj_def)


subsection \<open>The invariants hold along every history\<close>

lemma keyed_init: "keyed init"
  by (simp add: keyed_def init_def)

lemma stamped_upto_init: "stamped_upto e init"
  by (simp add: stamped_upto_def init_def)

lemma later_getCurrentDate: "later e e' \<Longrightarrow> getCurrentDate e \<le> getCurrentDate e'"
  by (simp add: later_def getCurrentDate_def monoD)

lemma later_time: "later e e' \<Longrightarrow> time e \<le> time e'"
  by (simp add: later_def)

lemma not_after_later:
  assumes "not_after e s" and "later e e'"
  shows "not_after e' s"
proof (cases s)
  case (AsDate d)
  with assms(1) have "d \<le> getCurrentDate e" by simp
  with later_getCurrentDate [OF assms(2)] AsDate show ?thesis by simp
next
  case (AsNat64 t)
  with assms(1) have "t \<le> time e" by simp
  with later_time [OF assms(2)] AsNat64 show ?thesis by simp
qed

lemma stamped_upto_later:
  assumes "stamped_upto e st" and "later e e'"
  shows "stamped_upto e' st"
  using assms unfolding stamped_upto_def by (blast intro: not_after_later)

lemma keyed_exec: "keyed st \<Longrightarrow> keyed (exec e c st)"
proof (cases c)
  case (UpdateUser i p)
  assume "keyed st"
  then show ?thesis using UpdateUser
    by (auto simp add: keyed_def btree_defs updateUser_def Let_def split: option.splits)
next
  case (UpdateStuff i p)
  assume "keyed st"
  then show ?thesis using UpdateStuff
    by (auto simp add: keyed_def btree_defs updateStuff_def Let_def split: option.splits)
next
  case (TransferStuffOwnability i k)
  assume "keyed st"
  then show ?thesis using TransferStuffOwnability
    by (auto simp add: keyed_def btree_defs checkUser_def transferStuffOwnability_def Let_def
        split: option.splits)
next
  case (UpdateSlot i p)
  assume "keyed st"
  then show ?thesis using UpdateSlot
    by (auto simp add: keyed_def btree_defs checkUser_def checkStuffId_def updateSlot_def
        Let_def split: option.splits)
qed (auto simp add: keyed_def btree_defs obj_defs checkUser_def checkStuffId_def addUser_def
    removeUser_def createStuff_def deleteStuff_def addSlot_def removeSlot_def Let_def)

lemma stamped_upto_exec: "stamped_upto e st \<Longrightarrow> stamped_upto e (exec e c st)"
proof (cases c)
  case (UpdateUser i p)
  assume "stamped_upto e st"
  then show ?thesis using UpdateUser
    by (auto simp add: stamped_upto_def btree_defs updateUser_def Let_def split: option.splits)
next
  case (UpdateStuff i p)
  assume "stamped_upto e st"
  then show ?thesis using UpdateStuff
    by (auto simp add: stamped_upto_def btree_defs updateStuff_def Let_def
        split: option.splits)
next
  case (TransferStuffOwnability i k)
  assume "stamped_upto e st"
  then show ?thesis using TransferStuffOwnability
    by (auto simp add: stamped_upto_def btree_defs checkUser_def transferStuffOwnability_def
        Let_def split: option.splits)
next
  case (UpdateSlot i p)
  assume "stamped_upto e st"
  then show ?thesis using UpdateSlot
    by (auto simp add: stamped_upto_def btree_defs checkUser_def checkStuffId_def
        updateSlot_def Let_def split: option.splits)
qed (auto simp add: stamped_upto_def btree_defs obj_defs checkUser_def checkStuffId_def
    addUser_def removeUser_def createStuff_def deleteStuff_def addSlot_def removeSlot_def
    Let_def split: if_splits)

lemma keyed_run: "keyed st \<Longrightarrow> keyed (snd (run e0 cs st))"
  by (induction e0 cs st rule: run.induct) (simp_all add: keyed_exec)

lemma stamped_upto_run:
  "stamped_upto e0 st \<Longrightarrow> ordered e0 cs \<Longrightarrow>
   stamped_upto (fst (run e0 cs st)) (snd (run e0 cs st))"
proof (induction e0 cs st rule: run.induct)
  case (1 e0 st)
  then show ?case by simp
next
  case (2 e0 e c cs st)
  from "2.prems" have "stamped_upto e st" by (auto intro: stamped_upto_later)
  then have "stamped_upto e (exec e c st)" by (rule stamped_upto_exec)
  with "2.IH" "2.prems" show ?case by simp
qed

text \<open>
  So in every state that a history with a clock that never goes back produces from the
  empty memory, each object sits under its own id, and at any later call no stored
  \<^verbatim>\<open>updatedAt\<close> lies after the time of that call.
\<close>

lemma history_invariants:
  assumes "ordered e0 cs" and "later (fst (run e0 cs init)) e"
  shows "keyed (snd (run e0 cs init)) \<and> stamped_upto e (snd (run e0 cs init))"
  using assms keyed_run [OF keyed_init] stamped_upto_run [OF stamped_upto_init]
    stamped_upto_later
  by blast

subsection \<open>The three handles are one map\<close>

text \<open>
  Since the three handles have the same memory id, each getter, each existence check
  and each removal of one module is the same function as its counterpart in the other
  two.
\<close>

lemma one_map:
  "getUser i st = getStuff i st \<and> getStuff i st = getSlot i st \<and>
   checkUser i st = checkStuffId i st \<and> checkStuffId i st = checkSlotId i st \<and>
   removeUser i st = deleteStuff i st \<and> deleteStuff i st = removeSlot i st"
  by (simp add: btree_defs getUser_def getStuff_def getSlot_def checkUser_def checkStuffId_def
      checkSlotId_def removeUser_def deleteStuff_def removeSlot_def)

section \<open>Creation\<close>

text \<open>
  C9. \<^verbatim>\<open>createStuff\<close> has no failure result and makes no existence check: for every
  payload and every state it returns the object made of the generated id, the payload
  fields and the time of the call as both timestamps, and stores it under that id.
  Whether \<^verbatim>\<open>payload.ownerId\<close> is the key of a stored user plays no part.
\<close>

theorem createStuff_does_not_check_owner:
  "fst (createStuff e stuff st) =
     Stuff_obj \<lparr>Stuff.id = uuidv4 e,
                description = StuffPayload.description stuff,
                image_url = StuffPayload.image_url stuff,
                ownerId = StuffPayload.ownerId stuff,
                createdAt = time e,
                updatedAt = time e\<rparr> \<and>
   getStuff (uuidv4 e) (snd (createStuff e stuff st)) = Some (fst (createStuff e stuff st)) \<and>
   snd (createStuff e stuff st) =
     st(stuffsStorage := (st stuffsStorage)(uuidv4 e \<mapsto> fst (createStuff e stuff st)))"
  by (simp add: get_btree_def insert_btree_def getStuff_def createStuff_def Let_def
      Stuff_obj_def)

text \<open>An instance with nothing stored at all.\<close>

theorem createStuff_does_not_check_owner_witness:
  "getUser ''U1'' init = None \<and>
   fst (createStuff (at ''I1'' 3000000) bike init) = I1 \<and>
   getStuff ''I1'' (snd (createStuff (at ''I1'' 3000000) bike init)) = Some I1"
  using createStuff_does_not_check_owner [of "at ''I1'' 3000000" bike init]
  by (simp add: init_def getUser_def getStuff_def get_btree_def)

text \<open>
  \<^verbatim>\<open>addUser\<close> likewise: the object it returns is the one \<^verbatim>\<open>getUser\<close> finds under the
  returned id, with the payload fields and two equal dates.
\<close>

lemma addUser_then_get:
  "getUser (obj.id (fst (addUser e user st))) (snd (addUser e user st)) =
     Some (fst (addUser e user st)) \<and>
   fst (addUser e user st) =
     User_obj \<lparr>User.id = uuidv4 e, pseudo = UserPayload.pseudo user,
               name = UserPayload.name user, createdAt = getCurrentDate e,
               updatedAt = getCurrentDate e\<rparr>"
  by (simp add: btree_defs getUser_def addUser_def Let_def)

text \<open>
  \<^verbatim>\<open>addSlot\<close> returns a slot exactly when the owner id is a key of the map and the
  stuff id is \<^emph>\<open>not\<close>; the slot it then returns is stored under the generated id with
  the payload fields and two equal timestamps. When both ids are keys of the map it
  returns the no-stuff message and the state is what it was.
\<close>

lemma addSlot_returns_slot_iff:
  "(\<exists>s. fst (addSlot e payload st) = Inr s) \<longleftrightarrow>
     getUser (SlotPayload.ownerId payload) st \<noteq> None \<and>
     getStuff (SlotPayload.stuffId payload) st = None"
  by (simp add: btree_defs getUser_def getStuff_def checkUser_def checkStuffId_def addSlot_def
      Let_def)

lemma addSlot_then_get:
  assumes "getUser (SlotPayload.ownerId payload) st \<noteq> None"
    and "getStuff (SlotPayload.stuffId payload) st = None"
  shows "getSlot (uuidv4 e) (snd (addSlot e payload st)) =
           Some (Slot_obj \<lparr>Slot.id = uuidv4 e,
                 description = SlotPayload.description payload,
                 stuffId = SlotPayload.stuffId payload,
                 ownerId = SlotPayload.ownerId payload,
                 beginAt = SlotPayload.beginAt payload,
                 endAt = SlotPayload.endAt payload,
                 available = SlotPayload.available payload,
                 createdAt = time e,
                 updatedAt = time e\<rparr>)"
  using assms
  by (simp add: btree_defs getUser_def getStuff_def getSlot_def checkUser_def checkStuffId_def
      addSlot_def Let_def Slot_obj_def)

lemma addSlot_known_stuff:
  assumes "getUser (SlotPayload.ownerId payload) st \<noteq> None"
    and "getStuff (SlotPayload.stuffId payload) st \<noteq> None"
  shows "addSlot e payload st =
           (Inl (''Can't create slot: no stuff matching id='' @ SlotPayload.stuffId payload), st)"
  using assms
  by (simp add: btree_defs getUser_def getStuff_def checkUser_def checkStuffId_def addSlot_def)

text \<open>
  C5. Creation followed by the getter returns the object with the payload fields, the
  generated id and two equal timestamps; this holds for \<^verbatim>\<open>addUser\<close> and \<^verbatim>\<open>createStuff\<close>
  (above). For \<^verbatim>\<open>addSlot\<close> on valid references the code does otherwise: with the user
  \<open>U1\<close> and the stuff \<open>I1\<close> both stored, it returns the no-stuff message and stores
  nothing, so there is no returned id to look up.
\<close>

theorem addSlot_refuses_valid_references:
  "getUser ''U1'' with_stuff = Some U1 \<and>
   getStuff ''I1'' with_stuff = Some I1 \<and>
   addSlot (at ''S2'' 4000000) rent with_stuff =
     (Inl ''Can't create slot: no stuff matching id=I1'', with_stuff)"
  by (simp add: with_stuff_eval btree_defs getUser_def getStuff_def checkUser_def
      checkStuffId_def addSlot_def Let_def)

text \<open>
  C1. A payload whose \<^verbatim>\<open>stuffId\<close> is the key of no stored stuff should be refused with
  the no-stuff message and nothing stored. The code does otherwise: with the user \<open>U1\<close>
  stored and nothing else, \<^verbatim>\<open>addSlot\<close> returns the new slot and stores it.
\<close>

theorem addSlot_accepts_unknown_stuff:
  "getUser ''U1'' with_user = Some U1 \<and>
   getStuff ''I1'' with_user = None \<and>
   getSlot ''S1'' with_user = None \<and>
   fst (addSlot (at ''S1'' 2000000) rent with_user) = Inr S1 \<and>
   getSlot ''S1'' (snd (addSlot (at ''S1'' 2000000) rent with_user)) = Some S1"
  by (simp add: with_user_eval btree_defs getUser_def getStuff_def getSlot_def checkUser_def
      checkStuffId_def addSlot_def Let_def Slot_obj_def)

text \<open>
  When \<^verbatim>\<open>payload.ownerId\<close> is no key of the map at all, \<^verbatim>\<open>addSlot\<close> returns the no-user
  message and the state is what it was.
\<close>

lemma addSlot_absent_owner_key:
  assumes "getUser (SlotPayload.ownerId payload) st = None"
  shows "addSlot e payload st =
           (Inl (''Can't create slot: no user found matching id='' @
                 SlotPayload.ownerId payload), st)"
  using assms by (simp add: btree_defs getUser_def checkUser_def addSlot_def)

text \<open>
  C2. A payload whose \<^verbatim>\<open>ownerId\<close> is the id of no stored user should be refused with
  the no-user message and nothing stored. The code does otherwise when the id is the
  key of a stored stuff or slot: \<^verbatim>\<open>checkUser\<close> reads the one shared map. With the owner
  id \<open>S1\<close>, under which the slot \<open>S1\<close> is stored, \<^verbatim>\<open>addSlot\<close> returns the new slot \<open>S2\<close>
  and stores it.
\<close>

theorem addSlot_takes_slot_id_as_owner:
  "getUser ''S1'' with_stuff = Some S1 \<and>
   getSlot ''S2'' with_stuff = None \<and>
   fst (addSlot (at ''S2'' 4000000)
          (rent\<lparr>SlotPayload.stuffId := ''I9'', SlotPayload.ownerId := ''S1''\<rparr>) with_stuff) =
     Inr (Slot_obj \<lparr>Slot.id = ''S2'', description = ''rent'', stuffId = ''I9'',
                    ownerId = ''S1'', beginAt = 100, endAt = 200, available = True,
                    createdAt = 4000000, updatedAt = 4000000\<rparr>) \<and>
   getSlot ''S2''
     (snd (addSlot (at ''S2'' 4000000)
             (rent\<lparr>SlotPayload.stuffId := ''I9'', SlotPayload.ownerId := ''S1''\<rparr>) with_stuff)) =
     Some (Slot_obj \<lparr>Slot.id = ''S2'', description = ''rent'', stuffId = ''I9'',
                     ownerId = ''S1'', beginAt = 100, endAt = 200, available = True,
                     createdAt = 4000000, updatedAt = 4000000\<rparr>)"
  by (simp add: with_stuff_eval btree_defs getUser_def getSlot_def checkUser_def
      checkStuffId_def addSlot_def Let_def Slot_obj_def)

section \<open>Update\<close>

text \<open>
  In terms of the keys of the shared map: \<^verbatim>\<open>updateSlot\<close> returns an object exactly when
  the id, \<^verbatim>\<open>payload.ownerId\<close> and \<^verbatim>\<open>payload.stuffId\<close> are all keys of the map, whatever
  objects they hold. Otherwise it returns the message of the first check that fails
  and the state is what it was.
\<close>

lemma updateSlot_by_keys:
  "((\<exists>s. fst (updateSlot e i payload st) = Inr s) \<longleftrightarrow>
      getSlot i st \<noteq> None \<and> getUser (SlotPayload.ownerId payload) st \<noteq> None \<and>
      getStuff (SlotPayload.stuffId payload) st \<noteq> None) \<and>
   (getSlot i st = None \<longrightarrow>
      updateSlot e i payload st = (Inl (''can't update slot: no slot matching id='' @ i), st)) \<and>
   (getSlot i st \<noteq> None \<and> getUser (SlotPayload.ownerId payload) st = None \<longrightarrow>
      updateSlot e i payload st =
        (Inl (''can't update slot: no user matching id='' @ SlotPayload.ownerId payload), st)) \<and>
   (getSlot i st \<noteq> None \<and> getUser (SlotPayload.ownerId payload) st \<noteq> None \<and>
    getStuff (SlotPayload.stuffId payload) st = None \<longrightarrow>
      updateSlot e i payload st =
        (Inl (''can't update slot: no stuff matching id='' @ SlotPayload.stuffId payload), st))"
  by (auto simp add: btree_defs getUser_def getStuff_def getSlot_def checkUser_def
      checkStuffId_def updateSlot_def Let_def split: option.splits)

text \<open>
  C3. \<^verbatim>\<open>updateSlot\<close> should succeed only when the id is that of a stored slot, and
  otherwise return the no-slot message and leave the store as it was. The code does
  otherwise when the id is the key of a stored user or stuff: \<^verbatim>\<open>slotsStorage.get\<close> reads
  the one shared map. Called with the id \<open>U1\<close>, under which the user \<open>U1\<close> is stored, it
  passes both checks, writes the slot payload over the user object and returns the
  merged object.
\<close>

theorem updateSlot_overwrites_user:
  "getSlot ''U1'' with_stuff = Some U1 \<and>
   fst (updateSlot (at ''X'' 4000000) ''U1'' rent with_stuff) =
     Inr (U1\<lparr>obj.description := Some ''rent'', obj.stuffId := Some ''I1'',
             obj.ownerId := Some ''U1'', obj.beginAt := Some 100, obj.endAt := Some 200,
             obj.available := Some True, obj.updatedAt := Some (AsNat64 4000000)\<rparr>) \<and>
   getUser ''U1'' (snd (updateSlot (at ''X'' 4000000) ''U1'' rent with_stuff)) =
     Some (U1\<lparr>obj.description := Some ''rent'', obj.stuffId := Some ''I1'',
              obj.ownerId := Some ''U1'', obj.beginAt := Some 100, obj.endAt := Some 200,
              obj.available := Some True, obj.updatedAt := Some (AsNat64 4000000)\<rparr>)"
  by (simp add: with_stuff_eval btree_defs getUser_def getSlot_def checkUser_def
      checkStuffId_def updateSlot_def Let_def)



text \<open>
  The first revision of \<^verbatim>\<open>updateUser\<close> does nothing for an id that is not a key of the
  map: it returns the empty option and the state is what it was.
\<close>

lemma updateUser_absent_id:
  "getUser i st = None \<Longrightarrow> updateUser e i user st = (None, st)"
  by (simp add: btree_defs getUser_def updateUser_def)

text \<open>
  The second revision stores an object under every id it is called with, and so
  changes the store when the id was absent.
\<close>

lemma updateUser_rev2_absent_id:
  assumes "\<not> checkUser i st"
  shows "getUser i (snd (updateUser_rev2 e i user st)) \<noteq> None \<and>
         snd (updateUser_rev2 e i user st) \<noteq> st"
proof -
  from assms have absent: "getUser i st = None"
    by (simp add: checkUser_def getUser_def btree_defs)
  have stored: "getUser i (snd (updateUser_rev2 e i user st)) \<noteq> None"
    by (simp add: updateUser_rev2_def getUser_def btree_defs Let_def)
  with absent have "snd (updateUser_rev2 e i user st) \<noteq> st" by auto
  with stored show ?thesis by simp
qed

text \<open>
  C8. For an id that is not stored, \<^verbatim>\<open>updateUser\<close> should leave the user store as it
  was. The first revision does (above). The second revision does otherwise: called on
  the empty memory with the id \<open>U1\<close>, it returns \<^verbatim>\<open>Result.Ok\<close> of an object without
  \<^verbatim>\<open>createdAt\<close> and stores that object under \<open>U1\<close>.
\<close>

theorem updateUser_rev2_inserts_absent_id:
  "checkUser ''U1'' init = False \<and>
   fst (updateUser_rev2 (at ''X'' 1000000) ''U1'' ann init) =
     Inr \<lparr>obj.id = ''U1'', pseudo = Some ''ann'', name = Some ''Ann'', description = None,
          image_url = None, stuffId = None, ownerId = None, beginAt = None, endAt = None,
          available = None, createdAt = None, updatedAt = Some (AsDate 10)\<rparr> \<and>
   snd (updateUser_rev2 (at ''X'' 1000000) ''U1'' ann init) =
     init(usersStorage :=
       [''U1'' \<mapsto>
        \<lparr>obj.id = ''U1'', pseudo = Some ''ann'', name = Some ''Ann'', description = None,
         image_url = None, stuffId = None, ownerId = None, beginAt = None, endAt = None,
         available = None, createdAt = None, updatedAt = Some (AsDate 10)\<rparr>])"
  by (simp add: get_btree_def containsKey_def insert_btree_def checkUser_def
      updateUser_rev2_def getCurrentDate_def init_def Let_def)

text \<open>
  In terms of the keys of the shared map: \<^verbatim>\<open>transferStuffOwnability\<close> returns an object
  exactly when the id and the new owner id are both keys of the map. Then, for an
  object that sits under its own id, the stored object differs from the previous one
  in \<^verbatim>\<open>ownerId\<close> and \<^verbatim>\<open>updatedAt\<close> only and every other key holds what it held.
  Otherwise it returns a message and the state is what it was.
\<close>

lemma transferStuffOwnability_by_keys:
  "((\<exists>s. fst (transferStuffOwnability e i toOwnerId st) = Inr s) \<longleftrightarrow>
      getStuff i st \<noteq> None \<and> getUser toOwnerId st \<noteq> None) \<and>
   (\<forall>stuff. getStuff i st = Some stuff \<and> obj.id stuff = i \<and> getUser toOwnerId st \<noteq> None \<longrightarrow>
      fst (transferStuffOwnability e i toOwnerId st) =
        Inr (stuff\<lparr>obj.ownerId := Some toOwnerId, obj.updatedAt := Some (AsNat64 (time e))\<rparr>) \<and>
      getStuff i (snd (transferStuffOwnability e i toOwnerId st)) =
        Some (stuff\<lparr>obj.ownerId := Some toOwnerId,
                    obj.updatedAt := Some (AsNat64 (time e))\<rparr>) \<and>
      (\<forall>k. k \<noteq> i \<longrightarrow>
           getStuff k (snd (transferStuffOwnability e i toOwnerId st)) = getStuff k st)) \<and>
   (getStuff i st = None \<or> getUser toOwnerId st = None \<longrightarrow>
      fst (transferStuffOwnability e i toOwnerId st) =
        Inl (''Stuff with id='' @ i @ '' not found'') \<and>
      snd (transferStuffOwnability e i toOwnerId st) = st)"
  by (auto simp add: btree_defs getUser_def getStuff_def checkUser_def
      transferStuffOwnability_def Let_def split: option.splits)

text \<open>
  C4. \<^verbatim>\<open>transferStuffOwnability\<close> should succeed only when the new owner is a stored
  user, and otherwise leave the stuff as it was. The code does otherwise when the new
  owner id is the key of a stored stuff or slot: \<^verbatim>\<open>checkUser\<close> reads the one shared
  map. With the new owner id \<open>S1\<close>, under which the slot \<open>S1\<close> is stored, the stuff \<open>I1\<close>
  is written back with \<^verbatim>\<open>ownerId\<close> \<open>S1\<close>.
\<close>

theorem transferStuffOwnability_to_slot_id:
  "getUser ''S1'' with_stuff = Some S1 \<and>
   getStuff ''I1'' with_stuff = Some I1 \<and>
   fst (transferStuffOwnability (at ''X'' 5000000) ''I1'' ''S1'' with_stuff) =
     Inr (Stuff_obj \<lparr>Stuff.id = ''I1'', description = ''bike'', image_url = ''bike.png'',
                     ownerId = ''S1'', createdAt = 3000000, updatedAt = 5000000\<rparr>) \<and>
   getStuff ''I1'' (snd (transferStuffOwnability (at ''X'' 5000000) ''I1'' ''S1'' with_stuff)) =
     Some (Stuff_obj \<lparr>Stuff.id = ''I1'', description = ''bike'', image_url = ''bike.png'',
                      ownerId = ''S1'', createdAt = 3000000, updatedAt = 5000000\<rparr>)"
  by (simp add: with_stuff_eval btree_defs obj_defs getUser_def getStuff_def checkUser_def
      transferStuffOwnability_def Let_def)

section \<open>Removal\<close>

text \<open>
  C7. After \<^verbatim>\<open>removeUser\<close>, \<^verbatim>\<open>deleteStuff\<close> or \<^verbatim>\<open>removeSlot\<close> of an id, the matching
  getter returns the empty option for that id. Removing the same id a second time
  returns the empty option as well (the functions have no error result) and leaves the
  state as the first removal left it.
\<close>

theorem remove_then_get_empty:
  "getUser i (snd (removeUser i st)) = None \<and>
   fst (removeUser i (snd (removeUser i st))) = None \<and>
   snd (removeUser i (snd (removeUser i st))) = snd (removeUser i st) \<and>
   getStuff i (snd (deleteStuff i st)) = None \<and>
   fst (deleteStuff i (snd (deleteStuff i st))) = None \<and>
   snd (deleteStuff i (snd (deleteStuff i st))) = snd (deleteStuff i st) \<and>
   getSlot i (snd (removeSlot i st)) = None \<and>
   fst (removeSlot i (snd (removeSlot i st))) = None \<and>
   snd (removeSlot i (snd (removeSlot i st))) = snd (removeSlot i st)"
  by (simp add: btree_defs getUser_def removeUser_def getStuff_def deleteStuff_def
      getSlot_def removeSlot_def)

text \<open>
  A removal changes the one key it is given: every other key holds what it held, so
  the objects that name the removed id in \<^verbatim>\<open>ownerId\<close> or \<^verbatim>\<open>stuffId\<close> stay stored.
\<close>

lemma remove_changes_one_key:
  "k \<noteq> i \<Longrightarrow>
   get_btree (snd (removeUser i st)) h k = get_btree st h k \<and>
   get_btree (snd (deleteStuff i st)) h k = get_btree st h k \<and>
   get_btree (snd (removeSlot i st)) h k = get_btree st h k"
  by (simp add: btree_defs removeUser_def deleteStuff_def removeSlot_def)

text \<open>
  C10. \<^verbatim>\<open>removeUser\<close> should change the stored users only and leave every stored stuff
  and slot as it was, and \<^verbatim>\<open>deleteStuff\<close> should leave every stored slot as it was. The
  code does otherwise when the id is the key of an object of another module:
  \<^verbatim>\<open>usersStorage.remove\<close> and \<^verbatim>\<open>stuffsStorage.remove\<close> act on the one shared map.
  \<^verbatim>\<open>removeUser\<close> with the id \<open>I1\<close> removes and returns the stuff \<open>I1\<close>, with the id \<open>S1\<close>
  the slot \<open>S1\<close>, and \<^verbatim>\<open>deleteStuff\<close> with the id \<open>S1\<close> removes the slot \<open>S1\<close>.
\<close>

theorem removeUser_removes_stuff:
  "getStuff ''I1'' with_stuff = Some I1 \<and>
   fst (removeUser ''I1'' with_stuff) = Some I1 \<and>
   getStuff ''I1'' (snd (removeUser ''I1'' with_stuff)) = None \<and>
   getSlot ''S1'' with_stuff = Some S1 \<and>
   fst (removeUser ''S1'' with_stuff) = Some S1 \<and>
   getSlot ''S1'' (snd (removeUser ''S1'' with_stuff)) = None \<and>
   fst (deleteStuff ''S1'' with_stuff) = Some S1 \<and>
   getSlot ''S1'' (snd (deleteStuff ''S1'' with_stuff)) = None"
  by (simp add: with_stuff_eval btree_defs getStuff_def getSlot_def removeUser_def
      deleteStuff_def)

end
